theory Spec2Isabelle
  imports Complex_Main
begin

section \<open>Transfer limits (server/utils/transfer\_limits.py)\<close>

subsection \<open>Data model\<close>

datatype TransferTypeEnum = PAYMENT | DEPOSIT | WITHDRAWAL

datatype TransferSubTypeEnum = STANDARD | AGENT_IN | AGENT_OUT | RECLAMATION

datatype TransferStatusEnum = PENDING | REJECTED | COMPLETE | PARTIAL

datatype TokenType = LIQUID | RESERVE

record KycApplication =
  kyc_status :: string
  app_type :: string
  multiple_documents_verified :: bool

text \<open>The roles of a user are a dictionary from a role name to the tier held.\<close>

type_synonym Roles = "(string \<times> string) list"

record User =
  user_id :: nat
  roles :: Roles
  has_group_account_role :: bool
  is_phone_verified :: bool
  kyc_applications :: "KycApplication list"

record Token =
  token_name :: string
  token_type :: TokenType

record TransferAccount =
  balance :: int

text \<open>
  A row of the credit transfer table. Amounts are integers in minor units, \<open>created\<close> is a
  timestamp in microseconds, the nullable relations are options.
\<close>

record CreditTransfer =
  transfer_id :: nat
  transfer_amount :: int
  transfer_type :: TransferTypeEnum
  transfer_subtype :: "TransferSubTypeEnum option"
  transfer_status :: TransferStatusEnum
  created :: int
  exclude_from_limit_calcs :: bool
  sender_user :: "User option"
  recipient_user :: "User option"
  token :: "Token option"
  sender_transfer_account :: "TransferAccount option"

text \<open>
  Errors are values. \<open>AttributeError\<close> is what Python raises on reading a field of
  \<open>None\<close>, \<open>TypeError\<close> on \<open>None - int\<close>. The limit errors carry the structured fields
  of the source's exceptions (the formatted message is presentation and is left out).
\<close>

datatype error =
    AttributeError
  | TypeError
  | NoTransferAllowedLimitError string
  | MaximumPerTransferLimitError int string
  | TransferAmountLimitError int int int string
  | MinimumSentLimitError int int int string
  | TransferBalanceFractionLimitError rat int int string
  | TransferCountLimitError int int string

subsection \<open>Python values and their truth\<close>

text \<open>
  The checks return whatever Python's \<open>and\<close>, \<open>or\<close> and \<open>not\<close> return: \<open>None\<close>, a
  boolean, or the user or token object itself. \<open>truthy\<close> is the truth value Python gives
  to such a result in a condition.
\<close>

datatype pyval = PyNone | PyBool bool | PyUser User | PyToken Token

fun truthy :: "pyval \<Rightarrow> bool" where
  "truthy PyNone = False"
| "truthy (PyBool b) = b"
| "truthy (PyUser u) = True"
| "truthy (PyToken k) = True"

definition py_and :: "error + pyval \<Rightarrow> error + pyval \<Rightarrow> error + pyval" where
  "py_and a b = (case a of Inl e \<Rightarrow> Inl e | Inr v \<Rightarrow> if truthy v then b else Inr v)"

definition py_or :: "error + pyval \<Rightarrow> error + pyval \<Rightarrow> error + pyval" where
  "py_or a b = (case a of Inl e \<Rightarrow> Inl e | Inr v \<Rightarrow> if truthy v then Inr v else b)"

definition py_not :: "error + pyval \<Rightarrow> error + pyval" where
  "py_not a = (case a of Inl e \<Rightarrow> Inl e | Inr v \<Rightarrow> Inr (PyBool (\<not> truthy v)))"

text \<open>A check returns a truthy value, a falsy value, or raises.\<close>

definition holds :: "error + pyval \<Rightarrow> bool" where
  "holds r = (case r of Inl e \<Rightarrow> False | Inr v \<Rightarrow> truthy v)"

definition returns_falsy :: "error + pyval \<Rightarrow> bool" where
  "returns_falsy r = (case r of Inl e \<Rightarrow> False | Inr v \<Rightarrow> \<not> truthy v)"

definition raises :: "error + 'a \<Rightarrow> bool" where
  "raises r = (case r of Inl e \<Rightarrow> True | Inr v \<Rightarrow> False)"

subsection \<open>Simple checks\<close>

text \<open>
  \<open>AccessControl.has_sufficient_tier\<close> lives in server/utils/access\_control.py; the checks
  take it as the parameter \<open>hst\<close> (held roles, required role, required tier).
\<close>

type_synonym TierCheck = "Roles \<Rightarrow> string \<Rightarrow> string \<Rightarrow> bool"

definition sempo_admin_involved :: "TierCheck \<Rightarrow> CreditTransfer \<Rightarrow> error + pyval" where
  "sempo_admin_involved hst credit_transfer =
     (if (case recipient_user credit_transfer of None \<Rightarrow> False
          | Some u \<Rightarrow> hst (roles u) ''ADMIN'' ''sempoadmin'')
      then Inr (PyBool True)
      else if (case sender_user credit_transfer of None \<Rightarrow> False
          | Some u \<Rightarrow> hst (roles u) ''ADMIN'' ''sempoadmin'')
      then Inr (PyBool True)
      else Inr (PyBool False))"

definition sender_user_exists :: "CreditTransfer \<Rightarrow> error + pyval" where
  "sender_user_exists credit_transfer =
     (case sender_user credit_transfer of None \<Rightarrow> Inr PyNone | Some u \<Rightarrow> Inr (PyUser u))"

definition user_has_group_account_role :: "CreditTransfer \<Rightarrow> error + pyval" where
  "user_has_group_account_role credit_transfer =
     (case sender_user credit_transfer of None \<Rightarrow> Inl AttributeError
      | Some u \<Rightarrow> Inr (PyBool (has_group_account_role u)))"

definition user_phone_is_verified :: "CreditTransfer \<Rightarrow> error + pyval" where
  "user_phone_is_verified credit_transfer =
     (case sender_user credit_transfer of None \<Rightarrow> Inl AttributeError
      | Some u \<Rightarrow> Inr (PyBool (is_phone_verified u)))"

text \<open>
  \<open>_sender_matches_kyc_criteria\<close> of the source (a name cannot start with an underscore
  here): \<open>next\<close> over the generator is the first application that meets the criteria.
\<close>

definition sender_matches_kyc_criteria ::
  "CreditTransfer \<Rightarrow> (KycApplication \<Rightarrow> bool) \<Rightarrow> error + pyval" where
  "sender_matches_kyc_criteria credit_transfer criteria =
     (case sender_user credit_transfer of
        Some u \<Rightarrow>
          (case find criteria (kyc_applications u) of
             None \<Rightarrow> Inr (PyBool False)
           | Some matches_criteria \<Rightarrow> Inr (PyBool True))
      | None \<Rightarrow> Inr (PyBool False))"

definition user_individual_kyc_is_verified :: "CreditTransfer \<Rightarrow> error + pyval" where
  "user_individual_kyc_is_verified credit_transfer =
     sender_matches_kyc_criteria credit_transfer
       (\<lambda>app. kyc_status app = ''VERIFIED'' \<and> app_type app = ''INDIVIDUAL''
              \<and> \<not> multiple_documents_verified app)"

definition user_business_or_multidoc_kyc_verified :: "CreditTransfer \<Rightarrow> error + pyval" where
  "user_business_or_multidoc_kyc_verified credit_transfer =
     sender_matches_kyc_criteria credit_transfer
       (\<lambda>app. kyc_status app = ''VERIFIED''
              \<and> (app_type app = ''BUSINESS'' \<or> multiple_documents_verified app))"

definition token_is_liquid_type :: "CreditTransfer \<Rightarrow> error + pyval" where
  "token_is_liquid_type credit_transfer =
     (case token credit_transfer of None \<Rightarrow> Inr PyNone
      | Some k \<Rightarrow> Inr (PyBool (token_type k = LIQUID)))"

definition token_is_reserve_type :: "CreditTransfer \<Rightarrow> error + pyval" where
  "token_is_reserve_type credit_transfer =
     (case token credit_transfer of None \<Rightarrow> Inr PyNone
      | Some k \<Rightarrow> Inr (PyBool (token_type k = RESERVE)))"


subsection \<open>Composite checks\<close>

definition base_check :: "TierCheck \<Rightarrow> CreditTransfer \<Rightarrow> error + pyval" where
  "base_check hst credit_transfer =
     py_and (sender_user_exists credit_transfer)
            (py_not (sempo_admin_involved hst credit_transfer))"

definition is_user_and_any_token :: "TierCheck \<Rightarrow> CreditTransfer \<Rightarrow> error + pyval" where
  "is_user_and_any_token hst credit_transfer =
     py_and (base_check hst credit_transfer)
            (py_or (token_is_reserve_type credit_transfer) (token_is_liquid_type credit_transfer))"

definition is_user_and_liquid_token :: "TierCheck \<Rightarrow> CreditTransfer \<Rightarrow> error + pyval" where
  "is_user_and_liquid_token hst credit_transfer =
     py_and (py_and (base_check hst credit_transfer) (token_is_liquid_type credit_transfer))
            (py_not (user_has_group_account_role credit_transfer))"

definition is_group_and_liquid_token :: "TierCheck \<Rightarrow> CreditTransfer \<Rightarrow> error + pyval" where
  "is_group_and_liquid_token hst credit_transfer =
     py_and (py_and (base_check hst credit_transfer) (token_is_liquid_type credit_transfer))
            (user_has_group_account_role credit_transfer)"

definition is_any_token_and_user_is_not_phone_and_not_kyc_verified ::
  "TierCheck \<Rightarrow> CreditTransfer \<Rightarrow> error + pyval" where
  "is_any_token_and_user_is_not_phone_and_not_kyc_verified hst credit_transfer =
     py_and (py_and (is_user_and_any_token hst credit_transfer)
                    (py_not (user_phone_is_verified credit_transfer)))
            (py_not (user_individual_kyc_is_verified credit_transfer))"

definition is_any_token_and_user_is_phone_but_not_kyc_verified ::
  "TierCheck \<Rightarrow> CreditTransfer \<Rightarrow> error + pyval" where
  "is_any_token_and_user_is_phone_but_not_kyc_verified hst credit_transfer =
     py_and (py_and (is_user_and_any_token hst credit_transfer)
                    (user_phone_is_verified credit_transfer))
            (py_not (py_or (user_individual_kyc_is_verified credit_transfer)
                           (user_business_or_multidoc_kyc_verified credit_transfer)))"

definition is_any_token_and_user_is_kyc_verified ::
  "TierCheck \<Rightarrow> CreditTransfer \<Rightarrow> error + pyval" where
  "is_any_token_and_user_is_kyc_verified hst credit_transfer =
     py_and (is_user_and_any_token hst credit_transfer)
            (user_individual_kyc_is_verified credit_transfer)"

definition is_any_token_and_user_is_kyc_business_verified ::
  "TierCheck \<Rightarrow> CreditTransfer \<Rightarrow> error + pyval" where
  "is_any_token_and_user_is_kyc_business_verified hst credit_transfer =
     py_and (is_user_and_any_token hst credit_transfer)
            (user_business_or_multidoc_kyc_verified credit_transfer)"

subsection \<open>Limit filters\<close>

text \<open>
  A filter is a list of SQL criteria, each a condition on a row; a query is the list of
  criteria collected so far, and a row is selected when it meets all of them. The columns
  compared here (type, status, the exclusion flag, the amount) are taken as not null; a
  comparison of a relation or of the subtype with \<open>None\<close> is SQLAlchemy's \<open>IS NULL\<close>.
\<close>

type_synonym Criterion = "CreditTransfer \<Rightarrow> bool"

type_synonym Query = "Criterion list"

type_synonym AggregationFilter = "CreditTransfer \<Rightarrow> Criterion list"

type_synonym ApplicationFilter = "CreditTransfer \<Rightarrow> error + pyval"

definition combine_filter_lists :: "'a list list \<Rightarrow> 'a list" where
  "combine_filter_lists filter_lists = foldl (\<lambda>f i. f @ i) [] filter_lists"

definition timedelta_days :: "int \<Rightarrow> int" where
  "timedelta_days days = days * 86400000000"

text \<open>\<open>today\<close> is the clock reading of \<open>datetime.datetime.today()\<close>.\<close>

definition after_time_period_filter :: "int \<Rightarrow> int \<Rightarrow> Criterion list" where
  "after_time_period_filter today days =
     (let epoch = today - timedelta_days days in [\<lambda>row. created row \<ge> epoch])"

definition matching_sender_user_filter :: AggregationFilter where
  "matching_sender_user_filter transfer =
     [\<lambda>row. map_option user_id (sender_user row) = map_option user_id (sender_user transfer)]"

definition regular_payment_filter :: AggregationFilter where
  "regular_payment_filter transfer = [\<lambda>row. transfer_subtype row = Some STANDARD]"

definition matching_transfer_type_filter :: AggregationFilter where
  "matching_transfer_type_filter transfer =
     [\<lambda>row. transfer_type row = transfer_type transfer]"

definition matching_transfer_type_and_subtype_filter :: AggregationFilter where
  "matching_transfer_type_and_subtype_filter transfer =
     [\<lambda>row. transfer_type row = transfer_type transfer,
      \<lambda>row. transfer_subtype row = transfer_subtype transfer]"

definition withdrawal_or_agent_out_and_not_excluded_filter :: AggregationFilter where
  "withdrawal_or_agent_out_and_not_excluded_filter transfer =
     [\<lambda>row. transfer_type row = WITHDRAWAL \<or> transfer_subtype row = Some AGENT_OUT,
      \<lambda>row. exclude_from_limit_calcs row = False]"

definition not_rejected_filter :: "Criterion list" where
  "not_rejected_filter = [\<lambda>row. transfer_status row \<noteq> REJECTED]"

subsection \<open>The database session\<close>

record Env =
  db_rows :: "CreditTransfer list"
  today :: int

definition selected_rows :: "Env \<Rightarrow> Query \<Rightarrow> CreditTransfer list" where
  "selected_rows env q = filter (\<lambda>row. list_all (\<lambda>c. c row) q) (db_rows env)"

text \<open>\<open>func.sum\<close> over no row is \<open>NULL\<close>, read as \<open>None\<close>; \<open>func.count\<close> over no row is 0.\<close>

definition first_total :: "Env \<Rightarrow> Query \<Rightarrow> int option" where
  "first_total env q =
     (let rs = selected_rows env q
      in if rs = [] then None else Some (sum_list (map transfer_amount rs)))"

definition first_count :: "Env \<Rightarrow> Query \<Rightarrow> int" where
  "first_count env q = int (length (selected_rows env q))"

subsection \<open>Limits\<close>

datatype AppliedToType =
    OfType TransferTypeEnum
  | OfTypeAndSubType TransferTypeEnum TransferSubTypeEnum

definition STANDARD_PAYMENT :: AppliedToType where
  "STANDARD_PAYMENT = OfTypeAndSubType PAYMENT STANDARD"

definition AGENT_OUT_PAYMENT :: AppliedToType where
  "AGENT_OUT_PAYMENT = OfTypeAndSubType PAYMENT AGENT_OUT"

definition AGENT_IN_PAYMENT :: AppliedToType where
  "AGENT_IN_PAYMENT = OfTypeAndSubType PAYMENT AGENT_IN"

definition RECLAMATION_PAYMENT :: AppliedToType where
  "RECLAMATION_PAYMENT = OfTypeAndSubType PAYMENT RECLAMATION"

definition GENERAL_PAYMENTS :: "AppliedToType list" where
  "GENERAL_PAYMENTS = [STANDARD_PAYMENT, AGENT_OUT_PAYMENT, AGENT_IN_PAYMENT, RECLAMATION_PAYMENT]"

text \<open>
  The attributes set by \<open>BaseTransferLimit.__init__\<close> and by \<open>AggregateLimit.__init__\<close>,
  and one constructor for each concrete class with the attributes it adds.
\<close>

record BaseTransferLimit =
  name :: string
  applied_to_transfer_types :: "AppliedToType list"
  application_filter :: ApplicationFilter

record AggregateLimit =
  time_period_days :: int
  custom_aggregation_filter :: AggregationFilter

datatype AggregateKind =
    TotalAmount int
  | MinimumSent AggregationFilter
  | BalanceFraction rat
  | TransferCount int

datatype TransferLimit =
    NoTransferAllowed BaseTransferLimit
  | MaximumAmountPerTransfer BaseTransferLimit int
  | Aggregate BaseTransferLimit AggregateLimit AggregateKind

fun base :: "TransferLimit \<Rightarrow> BaseTransferLimit" where
  "base (NoTransferAllowed b) = b"
| "base (MaximumAmountPerTransfer b maximum_amount) = b"
| "base (Aggregate b a k) = b"

definition applies_to_transfer :: "TransferLimit \<Rightarrow> CreditTransfer \<Rightarrow> error + pyval" where
  "applies_to_transfer limit transfer =
     (if OfType (transfer_type transfer) \<in> set (applied_to_transfer_types (base limit))
         \<or> (case transfer_subtype transfer of
               None \<Rightarrow> False
             | Some subtype \<Rightarrow>
                 OfTypeAndSubType (transfer_type transfer) subtype
                   \<in> set (applied_to_transfer_types (base limit)))
      then application_filter (base limit) transfer
      else Inr (PyBool False))"

text \<open>Python's \<open>int\<close> of a number: truncation towards zero.\<close>

definition py_int :: "rat \<Rightarrow> int" where
  "py_int x = (if 0 \<le> x then \<lfloor>x\<rfloor> else \<lceil>x\<rceil>)"

definition query_constructor_filter_specifiable ::
  "Env \<Rightarrow> AggregateLimit \<Rightarrow> CreditTransfer \<Rightarrow> Query \<Rightarrow> AggregationFilter \<Rightarrow> Query" where
  "query_constructor_filter_specifiable env self transfer base_query custom_filter =
     (let filter_list = combine_filter_lists
            [matching_sender_user_filter transfer,
             not_rejected_filter,
             after_time_period_filter (today env) (time_period_days self),
             custom_filter transfer]
      in base_query @ filter_list)"

definition query_constructor :: "Env \<Rightarrow> AggregateLimit \<Rightarrow> CreditTransfer \<Rightarrow> Query \<Rightarrow> Query" where
  "query_constructor env self transfer base_query =
     query_constructor_filter_specifiable env self transfer base_query
       (custom_aggregation_filter self)"

text \<open>\<open>AggregateTransferAmountMixin.used_aggregator\<close>: \<open>None - int\<close> is a \<open>TypeError\<close>.\<close>

definition amount_used_aggregator ::
  "Env \<Rightarrow> CreditTransfer \<Rightarrow> (CreditTransfer \<Rightarrow> Query \<Rightarrow> Query) \<Rightarrow> error + int" where
  "amount_used_aggregator env transfer qc =
     (case first_total env (qc transfer []) of
        None \<Rightarrow> Inl TypeError
      | Some total_sum \<Rightarrow> Inr (total_sum - transfer_amount transfer))"

text \<open>\<open>TransferCountLimit.used_aggregator\<close>.\<close>

definition count_used_aggregator ::
  "Env \<Rightarrow> CreditTransfer \<Rightarrow> (CreditTransfer \<Rightarrow> Query \<Rightarrow> Query) \<Rightarrow> error + int" where
  "count_used_aggregator env transfer qc = Inr (first_count env (qc transfer []) - 1)"

fun used_aggregator ::
  "AggregateKind \<Rightarrow> Env \<Rightarrow> CreditTransfer \<Rightarrow> (CreditTransfer \<Rightarrow> Query \<Rightarrow> Query) \<Rightarrow> error + int" where
  "used_aggregator (TransferCount transfer_count) env transfer qc =
     count_used_aggregator env transfer qc"
| "used_aggregator k env transfer qc = amount_used_aggregator env transfer qc"

fun available_base ::
  "Env \<Rightarrow> AggregateLimit \<Rightarrow> AggregateKind \<Rightarrow> CreditTransfer \<Rightarrow> error + int" where
  "available_base env self (TotalAmount total_amount) transfer = Inr total_amount"
| "available_base env self (MinimumSent minimum_sent_aggregation_filter) transfer =
     (case first_total env
             (query_constructor_filter_specifiable env self transfer []
                minimum_sent_aggregation_filter) of
        None \<Rightarrow> Inr 0
      | Some total_sum \<Rightarrow> Inr (if total_sum = 0 then 0 else total_sum))"
| "available_base env self (BalanceFraction balance_fraction) transfer =
     (case sender_transfer_account transfer of
        None \<Rightarrow> Inl AttributeError
      | Some account \<Rightarrow> Inr (py_int (balance_fraction * of_int (balance account))))"
| "available_base env self (TransferCount transfer_count) transfer = Inr transfer_count"

fun available :: "Env \<Rightarrow> TransferLimit \<Rightarrow> CreditTransfer \<Rightarrow> error + int" where
  "available env (NoTransferAllowed b) transfer = Inr 0"
| "available env (MaximumAmountPerTransfer b maximum_amount) transfer = Inr maximum_amount"
| "available env (Aggregate b self k) transfer =
     (case available_base env self k transfer of
        Inl e \<Rightarrow> Inl e
      | Inr base_avail \<Rightarrow>
          (case used_aggregator k env transfer (query_constructor env self) of
             Inl e \<Rightarrow> Inl e
           | Inr used \<Rightarrow> Inr (base_avail - used)))"

fun case_will_use :: "TransferLimit \<Rightarrow> CreditTransfer \<Rightarrow> int" where
  "case_will_use (NoTransferAllowed b) transfer = 1"
| "case_will_use (MaximumAmountPerTransfer b maximum_amount) transfer = transfer_amount transfer"
| "case_will_use (Aggregate b self (TransferCount transfer_count)) transfer = 1"
| "case_will_use (Aggregate b self k) transfer = transfer_amount transfer"

text \<open>
  \<open>throw_validation_error\<close> always raises; the model returns the error raised. Reading
  \<open>transfer.token.name\<close> raises \<open>AttributeError\<close> when the transfer has no token.
\<close>

fun throw_validation_error :: "Env \<Rightarrow> TransferLimit \<Rightarrow> CreditTransfer \<Rightarrow> int \<Rightarrow> error" where
  "throw_validation_error env (NoTransferAllowed b) transfer avail =
     (case token transfer of None \<Rightarrow> AttributeError
      | Some k \<Rightarrow> NoTransferAllowedLimitError (token_name k))"
| "throw_validation_error env (MaximumAmountPerTransfer b maximum_amount) transfer avail =
     (case token transfer of None \<Rightarrow> AttributeError
      | Some k \<Rightarrow> MaximumPerTransferLimitError maximum_amount (token_name k))"
| "throw_validation_error env (Aggregate b self (TotalAmount total_amount)) transfer avail =
     (case token transfer of None \<Rightarrow> AttributeError
      | Some k \<Rightarrow>
          TransferAmountLimitError total_amount avail (time_period_days self) (token_name k))"
| "throw_validation_error env (Aggregate b self (MinimumSent f)) transfer avail =
     (case available_base env self (MinimumSent f) transfer of
        Inl e \<Rightarrow> e
      | Inr limit \<Rightarrow>
          (case token transfer of None \<Rightarrow> AttributeError
           | Some k \<Rightarrow>
               MinimumSentLimitError limit avail (time_period_days self) (token_name k)))"
| "throw_validation_error env (Aggregate b self (BalanceFraction balance_fraction)) transfer avail =
     (case token transfer of None \<Rightarrow> AttributeError
      | Some k \<Rightarrow>
          TransferBalanceFractionLimitError balance_fraction avail (time_period_days self)
            (token_name k))"
| "throw_validation_error env (Aggregate b self (TransferCount transfer_count)) transfer avail =
     (case token transfer of None \<Rightarrow> AttributeError
      | Some k \<Rightarrow>
          TransferCountLimitError transfer_count (time_period_days self) (token_name k))"

definition validate_transfer :: "Env \<Rightarrow> TransferLimit \<Rightarrow> CreditTransfer \<Rightarrow> error + unit" where
  "validate_transfer env limit transfer =
     (case available env limit transfer of
        Inl e \<Rightarrow> Inl e
      | Inr avail \<Rightarrow>
          if avail < case_will_use limit transfer
          then Inl (throw_validation_error env limit transfer avail)
          else Inr ())"

subsection \<open>Construction\<close>

text \<open>
  The configuration module: the exchange rate applied to every configured amount, and the
  table of thresholds (every key the registry reads is present, the module does not load
  otherwise). A default argument of the source is written out at each call.
\<close>

record Config =
  LIMIT_EXCHANGE_RATE :: rat
  TRANSFER_LIMITS :: "string \<Rightarrow> rat"

text \<open>
  \<open>__init__\<close> turns a list given for a pair into a tuple; a pair is a pair here from
  the start.
\<close>

definition BaseTransferLimit_init ::
  "string \<Rightarrow> AppliedToType list \<Rightarrow> ApplicationFilter \<Rightarrow> BaseTransferLimit" where
  "BaseTransferLimit_init nm types flt =
     \<lparr>name = nm, applied_to_transfer_types = types, application_filter = flt\<rparr>"

definition AggregateLimit_init :: "int \<Rightarrow> AggregationFilter \<Rightarrow> AggregateLimit" where
  "AggregateLimit_init days aggregation_filter =
     \<lparr>time_period_days = days, custom_aggregation_filter = aggregation_filter\<rparr>"

definition NoTransferAllowedLimit ::
  "string \<Rightarrow> AppliedToType list \<Rightarrow> ApplicationFilter \<Rightarrow> TransferLimit" where
  "NoTransferAllowedLimit nm types flt = NoTransferAllowed (BaseTransferLimit_init nm types flt)"

definition MaximumAmountPerTransferLimit ::
  "Config \<Rightarrow> string \<Rightarrow> AppliedToType list \<Rightarrow> ApplicationFilter \<Rightarrow> rat \<Rightarrow> TransferLimit" where
  "MaximumAmountPerTransferLimit config nm types flt maximum_amount =
     MaximumAmountPerTransfer (BaseTransferLimit_init nm types flt)
       (py_int (maximum_amount * LIMIT_EXCHANGE_RATE config))"

definition TotalAmountLimit ::
  "Config \<Rightarrow> string \<Rightarrow> AppliedToType list \<Rightarrow> ApplicationFilter \<Rightarrow> int \<Rightarrow> rat
     \<Rightarrow> AggregationFilter \<Rightarrow> TransferLimit" where
  "TotalAmountLimit config nm types flt days total_amount aggregation_filter =
     Aggregate (BaseTransferLimit_init nm types flt)
       (AggregateLimit_init days aggregation_filter)
       (TotalAmount (py_int (total_amount * LIMIT_EXCHANGE_RATE config)))"

definition MinimumSentLimit ::
  "string \<Rightarrow> AppliedToType list \<Rightarrow> ApplicationFilter \<Rightarrow> int
     \<Rightarrow> AggregationFilter \<Rightarrow> AggregationFilter \<Rightarrow> TransferLimit" where
  "MinimumSentLimit nm types flt days aggregation_filter minimum_sent_aggregation_filter =
     Aggregate (BaseTransferLimit_init nm types flt)
       (AggregateLimit_init days aggregation_filter)
       (MinimumSent minimum_sent_aggregation_filter)"

definition BalanceFractionLimit ::
  "string \<Rightarrow> AppliedToType list \<Rightarrow> ApplicationFilter \<Rightarrow> int \<Rightarrow> rat
     \<Rightarrow> AggregationFilter \<Rightarrow> TransferLimit" where
  "BalanceFractionLimit nm types flt days balance_fraction aggregation_filter =
     Aggregate (BaseTransferLimit_init nm types flt)
       (AggregateLimit_init days aggregation_filter)
       (BalanceFraction balance_fraction)"

definition TransferCountLimit ::
  "string \<Rightarrow> AppliedToType list \<Rightarrow> ApplicationFilter \<Rightarrow> int \<Rightarrow> int
     \<Rightarrow> AggregationFilter \<Rightarrow> TransferLimit" where
  "TransferCountLimit nm types flt days transfer_count aggregation_filter =
     Aggregate (BaseTransferLimit_init nm types flt)
       (AggregateLimit_init days aggregation_filter)
       (TransferCount transfer_count)"

subsection \<open>The registry\<close>

definition LIMITS :: "TierCheck \<Rightarrow> Config \<Rightarrow> TransferLimit list" where
  "LIMITS hst config =
   [TotalAmountLimit config ''Sempo Level 0: P7'' GENERAL_PAYMENTS
      (is_any_token_and_user_is_not_phone_and_not_kyc_verified hst) 7
      (TRANSFER_LIMITS config ''0.P7'') matching_transfer_type_filter,
    TotalAmountLimit config ''Sempo Level 0: P30'' GENERAL_PAYMENTS
      (is_any_token_and_user_is_not_phone_and_not_kyc_verified hst) 30
      (TRANSFER_LIMITS config ''0.P30'') matching_transfer_type_filter,
    NoTransferAllowedLimit ''Sempo Level 0: WD30'' [OfType WITHDRAWAL, OfType DEPOSIT]
      (is_any_token_and_user_is_not_phone_and_not_kyc_verified hst),

    TotalAmountLimit config ''Sempo Level 1: P7'' GENERAL_PAYMENTS
      (is_any_token_and_user_is_phone_but_not_kyc_verified hst) 7
      (TRANSFER_LIMITS config ''1.P7'') matching_transfer_type_filter,
    TotalAmountLimit config ''Sempo Level 1: P30'' GENERAL_PAYMENTS
      (is_any_token_and_user_is_phone_but_not_kyc_verified hst) 30
      (TRANSFER_LIMITS config ''1.P30'') matching_transfer_type_filter,
    NoTransferAllowedLimit ''Sempo Level 1: WD30'' [OfType WITHDRAWAL, OfType DEPOSIT]
      (is_any_token_and_user_is_phone_but_not_kyc_verified hst),

    TotalAmountLimit config ''Sempo Level 2: P7'' GENERAL_PAYMENTS
      (is_any_token_and_user_is_kyc_verified hst) 7
      (TRANSFER_LIMITS config ''2.P7'') matching_transfer_type_filter,
    TotalAmountLimit config ''Sempo Level 2: P30'' GENERAL_PAYMENTS
      (is_any_token_and_user_is_kyc_verified hst) 30
      (TRANSFER_LIMITS config ''2.P30'') matching_transfer_type_filter,
    TotalAmountLimit config ''Sempo Level 2: WD7'' [OfType WITHDRAWAL, OfType DEPOSIT]
      (is_any_token_and_user_is_kyc_verified hst) 7
      (TRANSFER_LIMITS config ''2.WD7'') matching_transfer_type_filter,
    TotalAmountLimit config ''Sempo Level 2: WD30'' [OfType WITHDRAWAL, OfType DEPOSIT]
      (is_any_token_and_user_is_kyc_verified hst) 30
      (TRANSFER_LIMITS config ''2.WD30'') matching_transfer_type_filter,

    TotalAmountLimit config ''Sempo Level 3: P7'' GENERAL_PAYMENTS
      (is_any_token_and_user_is_kyc_business_verified hst) 7
      (TRANSFER_LIMITS config ''3.P7'') matching_transfer_type_filter,
    TotalAmountLimit config ''Sempo Level 3: P30'' GENERAL_PAYMENTS
      (is_any_token_and_user_is_kyc_business_verified hst) 30
      (TRANSFER_LIMITS config ''3.P30'') matching_transfer_type_filter,
    TotalAmountLimit config ''Sempo Level 3: WD7'' [OfType WITHDRAWAL, OfType DEPOSIT]
      (is_any_token_and_user_is_kyc_business_verified hst) 7
      (TRANSFER_LIMITS config ''3.WD7'') matching_transfer_type_filter,
    TotalAmountLimit config ''Sempo Level 3: WD30'' [OfType WITHDRAWAL, OfType DEPOSIT]
      (is_any_token_and_user_is_kyc_business_verified hst) 30
      (TRANSFER_LIMITS config ''3.WD30'') matching_transfer_type_filter,

    NoTransferAllowedLimit ''GE Liquid Token - Standard User''
      [AGENT_OUT_PAYMENT, OfType WITHDRAWAL]
      (is_user_and_liquid_token hst),

    TransferCountLimit ''GE Liquid Token - Group Account User''
      [AGENT_OUT_PAYMENT, OfType WITHDRAWAL]
      (is_group_and_liquid_token hst) 30 1
      withdrawal_or_agent_out_and_not_excluded_filter,

    BalanceFractionLimit ''GE Liquid Token - Group Account User''
      [AGENT_OUT_PAYMENT, OfType WITHDRAWAL]
      (is_group_and_liquid_token hst) 30 (1 / 2)
      withdrawal_or_agent_out_and_not_excluded_filter,

    MinimumSentLimit ''GE Liquid Token - Group Account User''
      [AGENT_OUT_PAYMENT, OfType WITHDRAWAL]
      (is_group_and_liquid_token hst) 30
      withdrawal_or_agent_out_and_not_excluded_filter regular_payment_filter,

    MaximumAmountPerTransferLimit config ''GE Liquid Token - Group Account User''
      [AGENT_OUT_PAYMENT, OfType WITHDRAWAL]
      (is_group_and_liquid_token hst)
      (TRANSFER_LIMITS config ''LT.MaxAm'')]"

text \<open>
  The list comprehension of \<open>get_transfer_limits\<close>: every limit is asked in order, a limit
  is kept when the answer is truthy, and an exception from a check ends the comprehension.
\<close>

fun select_limits :: "TransferLimit list \<Rightarrow> CreditTransfer \<Rightarrow> error + TransferLimit list" where
  "select_limits [] transfer = Inr []"
| "select_limits (limit # limits) transfer =
     (case applies_to_transfer limit transfer of
        Inl e \<Rightarrow> Inl e
      | Inr v \<Rightarrow>
          (case select_limits limits transfer of
             Inl e \<Rightarrow> Inl e
           | Inr rest \<Rightarrow> Inr (if truthy v then limit # rest else rest)))"

definition get_transfer_limits ::
  "TierCheck \<Rightarrow> Config \<Rightarrow> CreditTransfer \<Rightarrow> error + TransferLimit list" where
  "get_transfer_limits hst config transfer = select_limits (LIMITS hst config) transfer"

subsection \<open>What the limits are specified to measure\<close>

text \<open>
  The specification speaks of the prior transfers of the sender that are not rejected, lie in
  the window and match the aggregation filter of the limit. \<open>in_window_matching\<close> is that
  condition on a row, \<open>window_usage\<close> the sum of the amounts of such rows and \<open>window_count\<close>
  their number.
\<close>

definition in_window_matching ::
  "Env \<Rightarrow> int \<Rightarrow> AggregationFilter \<Rightarrow> CreditTransfer \<Rightarrow> CreditTransfer \<Rightarrow> bool" where
  "in_window_matching env days f transfer row =
     (map_option user_id (sender_user row) = map_option user_id (sender_user transfer)
      \<and> transfer_status row \<noteq> REJECTED
      \<and> today env - timedelta_days days \<le> created row
      \<and> list_all (\<lambda>c. c row) (f transfer))"

definition window_usage ::
  "Env \<Rightarrow> int \<Rightarrow> AggregationFilter \<Rightarrow> CreditTransfer \<Rightarrow> CreditTransfer list \<Rightarrow> int" where
  "window_usage env days f transfer prior =
     sum_list (map transfer_amount (filter (in_window_matching env days f transfer) prior))"

definition window_count ::
  "Env \<Rightarrow> int \<Rightarrow> AggregationFilter \<Rightarrow> CreditTransfer \<Rightarrow> CreditTransfer list \<Rightarrow> int" where
  "window_count env days f transfer prior =
     int (length (filter (in_window_matching env days f transfer) prior))"



text \<open>The in-flight transfer is a row of the session and meets the query built for it.\<close>

definition persisted_and_counted ::
  "Env \<Rightarrow> int \<Rightarrow> AggregationFilter \<Rightarrow> CreditTransfer \<Rightarrow> CreditTransfer list \<Rightarrow> bool" where
  "persisted_and_counted env days f transfer prior =
     (db_rows env = prior @ [transfer]
      \<and> transfer_status transfer \<noteq> REJECTED
      \<and> today env - timedelta_days days \<le> created transfer
      \<and> list_all (\<lambda>c. c transfer) (f transfer))"

subsection \<open>Sample data\<close>

text \<open>A tier check for the samples: the user holds exactly the required tier of the role.\<close>

definition held_exactly :: TierCheck where
  "held_exactly held required_role required_tier = ((required_role, required_tier) \<in> set held)"

definition sample_token :: Token where
  "sample_token = \<lparr>token_name = ''FOO'', token_type = LIQUID\<rparr>"



definition sample_user :: "bool \<Rightarrow> KycApplication list \<Rightarrow> User" where
  "sample_user phone kycs =
     \<lparr>user_id = 1, roles = [], has_group_account_role = True, is_phone_verified = phone,
      kyc_applications = kycs\<rparr>"

definition admin_user :: User where
  "admin_user =
     \<lparr>user_id = 2, roles = [(''ADMIN'', ''sempoadmin'')], has_group_account_role = False,
      is_phone_verified = True, kyc_applications = []\<rparr>"

definition sample_transfer ::
  "nat \<Rightarrow> TransferTypeEnum \<Rightarrow> TransferSubTypeEnum option \<Rightarrow> int \<Rightarrow> int \<Rightarrow> int
     \<Rightarrow> User option \<Rightarrow> CreditTransfer" where
  "sample_transfer i ty st amount created_at bal sender =
     \<lparr>transfer_id = i, transfer_amount = amount, transfer_type = ty, transfer_subtype = st,
      transfer_status = COMPLETE, created = created_at, exclude_from_limit_calcs = False,
      sender_user = sender, recipient_user = None, token = Some sample_token,
      sender_transfer_account = Some \<lparr>balance = bal\<rparr>\<rparr>"

definition sample_config :: Config where
  "sample_config = \<lparr>LIMIT_EXCHANGE_RATE = 1, TRANSFER_LIMITS = (\<lambda>key. 5000)\<rparr>"

definition sample_env :: "CreditTransfer list \<Rightarrow> Env" where
  "sample_env table = \<lparr>db_rows = table, today = timedelta_days 100\<rparr>"

text \<open>
  Rows of one sender: a payment and a withdrawal made 40 days before \<open>today\<close>, a payment
  and a withdrawal made the day before, and the transfer being validated, made today.
\<close>

definition old_payment :: CreditTransfer where
  "old_payment =
     sample_transfer 1 PAYMENT (Some STANDARD) 9999 (timedelta_days 60) 500
       (Some (sample_user True []))"

definition recent_payment :: CreditTransfer where
  "recent_payment =
     sample_transfer 2 PAYMENT (Some STANDARD) 3000 (timedelta_days 99) 500
       (Some (sample_user True []))"

definition new_payment :: "int \<Rightarrow> CreditTransfer" where
  "new_payment amount =
     sample_transfer 3 PAYMENT (Some STANDARD) amount (timedelta_days 100) 500
       (Some (sample_user True []))"

definition old_withdrawal :: CreditTransfer where
  "old_withdrawal =
     sample_transfer 4 WITHDRAWAL None 400 (timedelta_days 60) 500
       (Some (sample_user True []))"

definition recent_withdrawal :: CreditTransfer where
  "recent_withdrawal =
     sample_transfer 5 WITHDRAWAL None 100 (timedelta_days 99) 500
       (Some (sample_user True []))"

definition new_withdrawal :: "int \<Rightarrow> int \<Rightarrow> CreditTransfer" where
  "new_withdrawal amount bal =
     sample_transfer 6 WITHDRAWAL None amount (timedelta_days 100) bal
       (Some (sample_user True []))"

text \<open>
  A deposit of subtype \<open>STANDARD\<close> made the day before, an agent-out payment made today,
  and a transfer without a sender.
\<close>

definition standard_deposit :: CreditTransfer where
  "standard_deposit =
     sample_transfer 7 DEPOSIT (Some STANDARD) 100 (timedelta_days 99) 500
       (Some (sample_user True []))"

definition new_agent_out :: CreditTransfer where
  "new_agent_out =
     sample_transfer 8 PAYMENT (Some AGENT_OUT) 50 (timedelta_days 100) 500
       (Some (sample_user True []))"

definition no_sender_transfer :: CreditTransfer where
  "no_sender_transfer = sample_transfer 9 PAYMENT (Some STANDARD) 10 (timedelta_days 100) 500 None"

section \<open>Properties\<close>

subsection \<open>Truth of the connectives\<close>

lemma py_and_falsy: "returns_falsy a \<Longrightarrow> returns_falsy (py_and a b)"
  by (auto simp: returns_falsy_def py_and_def split: sum.splits)


lemma holds_py_or: "holds (py_or a b) \<longleftrightarrow> holds a \<or> (returns_falsy a \<and> holds b)"
  by (auto simp: holds_def returns_falsy_def py_or_def split: sum.splits)


lemma holds_not_falsy: "holds a \<Longrightarrow> \<not> returns_falsy a"
  by (auto simp: holds_def returns_falsy_def split: sum.splits)

subsection \<open>Administrators are exempt\<close>

lemma base_check_admin:
  "holds (sempo_admin_involved hst t) \<Longrightarrow> returns_falsy (base_check hst t)"
  by (auto simp: holds_def returns_falsy_def base_check_def py_and_def py_not_def
        sender_user_exists_def sempo_admin_involved_def split: sum.splits option.splits if_splits)

lemma filters_admin:
  assumes "holds (sempo_admin_involved hst t)"
  shows "returns_falsy (is_user_and_any_token hst t)"
    and "returns_falsy (is_user_and_liquid_token hst t)"
    and "returns_falsy (is_group_and_liquid_token hst t)"
    and "returns_falsy (is_any_token_and_user_is_not_phone_and_not_kyc_verified hst t)"
    and "returns_falsy (is_any_token_and_user_is_phone_but_not_kyc_verified hst t)"
    and "returns_falsy (is_any_token_and_user_is_kyc_verified hst t)"
    and "returns_falsy (is_any_token_and_user_is_kyc_business_verified hst t)"
  using base_check_admin [OF assms]
  by (simp_all add: is_user_and_any_token_def is_user_and_liquid_token_def
        is_group_and_liquid_token_def
        is_any_token_and_user_is_not_phone_and_not_kyc_verified_def
        is_any_token_and_user_is_phone_but_not_kyc_verified_def
        is_any_token_and_user_is_kyc_verified_def
        is_any_token_and_user_is_kyc_business_verified_def py_and_falsy)

lemma applies_falsy:
  "returns_falsy (application_filter (base l) t) \<Longrightarrow> returns_falsy (applies_to_transfer l t)"
  by (simp add: applies_to_transfer_def returns_falsy_def)

lemma select_limits_none:
  "\<forall>l \<in> set ls. returns_falsy (applies_to_transfer l t) \<Longrightarrow> select_limits ls t = Inr []"
  by (induction ls) (auto simp: returns_falsy_def split: sum.splits)

lemma LIMITS_filters:
  "l \<in> set (LIMITS hst config) \<Longrightarrow>
     application_filter (base l) \<in>
       {is_user_and_liquid_token hst, is_group_and_liquid_token hst,
        is_any_token_and_user_is_not_phone_and_not_kyc_verified hst,
        is_any_token_and_user_is_phone_but_not_kyc_verified hst,
        is_any_token_and_user_is_kyc_verified hst,
        is_any_token_and_user_is_kyc_business_verified hst}"
  unfolding LIMITS_def TotalAmountLimit_def NoTransferAllowedLimit_def TransferCountLimit_def
    BalanceFractionLimit_def MinimumSentLimit_def MaximumAmountPerTransferLimit_def
    BaseTransferLimit_init_def
  by (auto simp: BaseTransferLimit.defs)

text \<open>
  C1. For every transfer for which \<open>sempo_admin_involved\<close> returns true,
  \<open>get_transfer_limits\<close> returns the empty list: no rule of the registry applies.
\<close>

theorem admin_involved_no_limits:
  "holds (sempo_admin_involved hst t) \<Longrightarrow> get_transfer_limits hst config t = Inr []"
  unfolding get_transfer_limits_def
  apply (rule select_limits_none)
  apply (rule ballI)
  apply (rule applies_falsy)
  apply (drule LIMITS_filters)
  apply (auto simp: filters_admin)
  done

theorem admin_involved_no_limits_witness:
  "holds (sempo_admin_involved held_exactly
            (sample_transfer 7 PAYMENT (Some STANDARD) 100 0 500 (Some admin_user)))
   \<and> get_transfer_limits held_exactly sample_config
        (sample_transfer 7 PAYMENT (Some STANDARD) 100 0 500 (Some admin_user)) = Inr []"
proof -
  have h: "holds (sempo_admin_involved held_exactly
            (sample_transfer 7 PAYMENT (Some STANDARD) 100 0 500 (Some admin_user)))"
    by (simp add: holds_def sempo_admin_involved_def sample_transfer_def admin_user_def
          held_exactly_def)
  show ?thesis using h admin_involved_no_limits [OF h] by simp
qed

subsection \<open>When a limit applies\<close>

text \<open>
  C8. For every limit and every transfer, \<open>applies_to_transfer\<close> returns true exactly when
  the type of the transfer, or the pair of its type and subtype, is an element of
  \<open>applied_to_transfer_types\<close> and the application filter returns true for the transfer.
  The match is membership in the list; nothing stands for "any".
\<close>

theorem applies_to_transfer_exact:
  "holds (applies_to_transfer limit transfer) \<longleftrightarrow>
     (OfType (transfer_type transfer) \<in> set (applied_to_transfer_types (base limit))
      \<or> (\<exists>subtype. transfer_subtype transfer = Some subtype
           \<and> OfTypeAndSubType (transfer_type transfer) subtype
                \<in> set (applied_to_transfer_types (base limit))))
     \<and> holds (application_filter (base limit) transfer)"
  by (auto simp: applies_to_transfer_def holds_def split: option.splits)

subsection \<open>The rows a limit aggregates\<close>

lemma selected_specifiable:
  "selected_rows env (query_constructor_filter_specifiable env self t [] g) =
     filter (in_window_matching env (time_period_days self) g t) (db_rows env)"
proof -
  have "(\<lambda>row. list_all (\<lambda>c. c row) (query_constructor_filter_specifiable env self t [] g)) =
        in_window_matching env (time_period_days self) g t"
    by (rule ext)
       (auto simp: query_constructor_filter_specifiable_def combine_filter_lists_def
          matching_sender_user_filter_def not_rejected_filter_def after_time_period_filter_def
          in_window_matching_def Let_def)
  then show ?thesis by (simp add: selected_rows_def)
qed

lemma selected_query_constructor:
  "selected_rows env (query_constructor env self t []) =
     filter (in_window_matching env (time_period_days self) (custom_aggregation_filter self) t)
       (db_rows env)"
  by (simp add: query_constructor_def selected_specifiable)

lemma in_flight_matches:
  "persisted_and_counted env days f t prior \<Longrightarrow> in_window_matching env days f t t"
  by (simp add: persisted_and_counted_def in_window_matching_def)

lemma selected_persisted:
  assumes "persisted_and_counted env (time_period_days self) (custom_aggregation_filter self) t prior"
  shows "selected_rows env (query_constructor env self t []) =
     filter (in_window_matching env (time_period_days self) (custom_aggregation_filter self) t) prior
       @ [t]"
  using assms in_flight_matches [OF assms]
  by (simp add: selected_query_constructor persisted_and_counted_def)

lemma amount_used_persisted:
  assumes "persisted_and_counted env (time_period_days self) (custom_aggregation_filter self) t prior"
  shows "amount_used_aggregator env t (query_constructor env self) =
     Inr (window_usage env (time_period_days self) (custom_aggregation_filter self) t prior)"
  by (simp add: amount_used_aggregator_def first_total_def selected_persisted [OF assms]
        window_usage_def)

lemma count_used_persisted:
  assumes "persisted_and_counted env (time_period_days self) (custom_aggregation_filter self) t prior"
  shows "count_used_aggregator env t (query_constructor env self) =
     Inr (window_count env (time_period_days self) (custom_aggregation_filter self) t prior)"
  by (simp add: count_used_aggregator_def first_count_def selected_persisted [OF assms]
        window_count_def)

lemmas sample_simps = sample_transfer_def sample_env_def sample_token_def sample_user_def
  sample_config_def timedelta_days_def py_int_def old_payment_def recent_payment_def
  new_payment_def old_withdrawal_def recent_withdrawal_def new_withdrawal_def
  standard_deposit_def new_agent_out_def no_sender_transfer_def

lemmas filter_simps = in_window_matching_def window_usage_def window_count_def
  persisted_and_counted_def matching_transfer_type_filter_def
  withdrawal_or_agent_out_and_not_excluded_filter_def regular_payment_filter_def

subsection \<open>Maximum amount per transfer\<close>



subsection \<open>Total amount in a window\<close>



subsection \<open>Number of transfers in a window\<close>

text \<open>
  C4. For a \<open>TransferCountLimit\<close> with count N and a window of 30 days, the count the query
  returns includes the in-flight transfer and 1 is subtracted from it, so what is used is
  the number of prior matching transfers: with fewer than N of them the transfer passes
  (the Nth passes), with N of them it raises \<open>TransferCountLimitError\<close> (the (N+1)th
  fails). The in-flight transfer is not counted twice.
\<close>

theorem transfer_count_window:
  assumes "persisted_and_counted env 30 f t prior" and "token t = Some k"
  shows "validate_transfer env (TransferCountLimit nm types flt 30 n f) t =
     (if window_count env 30 f t prior + 1 \<le> n
      then Inr ()
      else Inl (TransferCountLimitError n 30 (token_name k)))
   \<and> count_used_aggregator env t (query_constructor env (AggregateLimit_init 30 f))
       = Inr (window_count env 30 f t prior)"
proof -
  let ?self = "AggregateLimit_init 30 f"
  have p: "persisted_and_counted env (time_period_days ?self) (custom_aggregation_filter ?self) t prior"
    using assms(1) by (simp add: AggregateLimit_init_def)
  have u: "count_used_aggregator env t (query_constructor env ?self) =
             Inr (window_count env 30 f t prior)"
    using count_used_persisted [OF p] by (simp add: AggregateLimit_init_def)
  show ?thesis
    using u assms(2)
    by (auto simp: validate_transfer_def TransferCountLimit_def AggregateLimit_init_def)
qed

theorem transfer_count_window_witness:
  "persisted_and_counted (sample_env [old_withdrawal, new_withdrawal 50 500]) 30
     withdrawal_or_agent_out_and_not_excluded_filter (new_withdrawal 50 500) [old_withdrawal]
   \<and> validate_transfer (sample_env [old_withdrawal, new_withdrawal 50 500])
        (TransferCountLimit ''GE'' [AGENT_OUT_PAYMENT, OfType WITHDRAWAL]
           (is_group_and_liquid_token held_exactly) 30 1
           withdrawal_or_agent_out_and_not_excluded_filter)
        (new_withdrawal 50 500) = Inr ()
   \<and> validate_transfer (sample_env [old_withdrawal, recent_withdrawal, new_withdrawal 50 500])
        (TransferCountLimit ''GE'' [AGENT_OUT_PAYMENT, OfType WITHDRAWAL]
           (is_group_and_liquid_token held_exactly) 30 1
           withdrawal_or_agent_out_and_not_excluded_filter)
        (new_withdrawal 50 500) = Inl (TransferCountLimitError 1 30 ''FOO'')"
proof -
  let ?f = withdrawal_or_agent_out_and_not_excluded_filter
  let ?t = "new_withdrawal 50 500"
  have p1: "persisted_and_counted (sample_env [old_withdrawal, ?t]) 30 ?f ?t [old_withdrawal]"
    by (simp add: filter_simps sample_simps)
  have p2: "persisted_and_counted (sample_env [old_withdrawal, recent_withdrawal, ?t]) 30 ?f ?t
              [old_withdrawal, recent_withdrawal]"
    by (simp add: filter_simps sample_simps)
  have k: "token ?t = Some sample_token"
    by (simp add: sample_simps)
  have u1: "window_count (sample_env [old_withdrawal, ?t]) 30 ?f ?t [old_withdrawal] = 0"
    by (simp add: filter_simps sample_simps)
  have u2: "window_count (sample_env [old_withdrawal, recent_withdrawal, ?t]) 30 ?f ?t
              [old_withdrawal, recent_withdrawal] = 1"
    by (simp add: filter_simps sample_simps)
  show ?thesis
    using p1 transfer_count_window [OF p1 k]
      transfer_count_window [OF p2 k] u1 u2
    by (simp add: sample_token_def)
qed

subsection \<open>Fraction of the balance\<close>



subsection \<open>The sum over no row\<close>

lemma raises_amount_used:
  "raises (amount_used_aggregator env t (query_constructor env self)) \<longleftrightarrow>
     filter (in_window_matching env (time_period_days self) (custom_aggregation_filter self) t)
       (db_rows env) = []"
  by (simp add: raises_def amount_used_aggregator_def first_total_def
        selected_query_constructor Let_def)

text \<open>
  C10. For the limits that aggregate amounts (\<open>TotalAmountLimit\<close>, \<open>MinimumSentLimit\<close>,
  \<open>BalanceFractionLimit\<close>) \<open>used_aggregator\<close> returns only when at least one row meets the
  query: over no row the sum is \<open>None\<close> and subtracting the amount of the transfer raises
  \<open>TypeError\<close>. When the in-flight transfer is itself a row that meets the query, the
  aggregator returns the prior usage. \<open>MinimumSentLimit.available_base\<close> reads a sum over
  no row as 0.
\<close>

theorem amount_aggregator_needs_a_row:
  "(raises (amount_used_aggregator env t (query_constructor env self)) \<longleftrightarrow>
      filter (in_window_matching env (time_period_days self) (custom_aggregation_filter self) t)
        (db_rows env) = [])
   \<and> used_aggregator (TotalAmount c) env t qc = amount_used_aggregator env t qc
   \<and> used_aggregator (MinimumSent g) env t qc = amount_used_aggregator env t qc
   \<and> used_aggregator (BalanceFraction r) env t qc = amount_used_aggregator env t qc
   \<and> (filter (in_window_matching env (time_period_days self) (custom_aggregation_filter self) t)
        (db_rows env) = []
      \<longrightarrow> amount_used_aggregator env t (query_constructor env self) = Inl TypeError)
   \<and> (persisted_and_counted env (time_period_days self) (custom_aggregation_filter self) t prior
      \<longrightarrow> amount_used_aggregator env t (query_constructor env self)
          = Inr (window_usage env (time_period_days self) (custom_aggregation_filter self) t
                   prior))
   \<and> (filter (in_window_matching env (time_period_days self) g t) (db_rows env) = []
      \<longrightarrow> available_base env self (MinimumSent g) t = Inr 0)"
proof -
  have a: "filter (in_window_matching env (time_period_days self)
              (custom_aggregation_filter self) t) (db_rows env) = []
      \<Longrightarrow> amount_used_aggregator env t (query_constructor env self) = Inl TypeError"
    by (simp add: amount_used_aggregator_def first_total_def selected_query_constructor)
  have b: "filter (in_window_matching env (time_period_days self) g t) (db_rows env) = []
      \<Longrightarrow> available_base env self (MinimumSent g) t = Inr 0"
    by (simp add: first_total_def selected_specifiable)
  show ?thesis
    using raises_amount_used [of env t self] a b amount_used_persisted [of env self t prior]
    by simp
qed

theorem amount_aggregator_needs_a_row_witness:
  "filter (in_window_matching (sample_env [old_withdrawal])
             (time_period_days (AggregateLimit_init 30 matching_transfer_type_filter))
             (custom_aggregation_filter (AggregateLimit_init 30 matching_transfer_type_filter))
             (new_withdrawal 50 500))
      (db_rows (sample_env [old_withdrawal])) = []
   \<and> amount_used_aggregator (sample_env [old_withdrawal]) (new_withdrawal 50 500)
       (query_constructor (sample_env [old_withdrawal])
          (AggregateLimit_init 30 matching_transfer_type_filter)) = Inl TypeError
   \<and> available_base (sample_env [old_withdrawal])
       (AggregateLimit_init 30 matching_transfer_type_filter)
       (MinimumSent regular_payment_filter) (new_withdrawal 50 500) = Inr 0
   \<and> amount_used_aggregator (sample_env [old_withdrawal, new_withdrawal 50 500])
       (new_withdrawal 50 500)
       (query_constructor (sample_env [old_withdrawal, new_withdrawal 50 500])
          (AggregateLimit_init 30 matching_transfer_type_filter)) = Inr 0"
proof -
  let ?self = "AggregateLimit_init 30 matching_transfer_type_filter"
  let ?t = "new_withdrawal 50 500"
  have e: "filter (in_window_matching (sample_env [old_withdrawal]) (time_period_days ?self)
             (custom_aggregation_filter ?self) ?t) (db_rows (sample_env [old_withdrawal])) = []"
    by (simp add: AggregateLimit_init_def filter_simps sample_simps)
  have e': "filter (in_window_matching (sample_env [old_withdrawal]) (time_period_days ?self)
             regular_payment_filter ?t) (db_rows (sample_env [old_withdrawal])) = []"
    by (simp add: AggregateLimit_init_def filter_simps sample_simps)
  have p: "persisted_and_counted (sample_env [old_withdrawal, ?t]) (time_period_days ?self)
             (custom_aggregation_filter ?self) ?t [old_withdrawal]"
    by (simp add: AggregateLimit_init_def filter_simps sample_simps)
  have u: "window_usage (sample_env [old_withdrawal, ?t]) (time_period_days ?self)
             (custom_aggregation_filter ?self) ?t [old_withdrawal] = 0"
    by (simp add: AggregateLimit_init_def filter_simps sample_simps)
  show ?thesis
    using e e' p u
      amount_aggregator_needs_a_row [where env = "sample_env [old_withdrawal]" and t = ?t
        and self = ?self and g = regular_payment_filter]
      amount_aggregator_needs_a_row [where env = "sample_env [old_withdrawal, ?t]" and t = ?t
        and self = ?self and prior = "[old_withdrawal]"]
    by simp
qed

subsection \<open>Which checks are total\<close>











subsection \<open>The verification tiers\<close>











subsection \<open>Minimum sent\<close>





end
